theory Spec2Isabelle
  imports Complex_Main
begin

section \<open>Python values used by the models\<close>

text \<open>
  A \<open>DecimalField\<close> holds a finite decimal number; it is modelled as a rational.
  A nullable field (\<open>null=True\<close>) is an \<open>option\<close>, with \<open>None\<close> for Python's \<open>None\<close>;
  a field without \<open>null=True\<close> holds a value in every stored row and is not optional.
  A foreign key is the primary key of the row it points to.
  A \<open>str\<close> is held as the sequence of its UTF-8 bytes; the line feed is the single
  byte 10 and is part of no multi-byte sequence.
\<close>

type_synonym decimal = rat

text \<open>
  Truth value testing of Python: \<open>None\<close> is false, and a \<open>Decimal\<close> is false exactly
  when it is zero. \<open>x or y\<close> evaluates to \<open>x\<close> when \<open>x\<close> is true and to \<open>y\<close> otherwise.
\<close>

definition decimal_bool :: "decimal option \<Rightarrow> bool" where
  "decimal_bool x = (case x of None \<Rightarrow> False | Some p \<Rightarrow> p \<noteq> 0)"

definition decimal_or :: "decimal option \<Rightarrow> decimal \<Rightarrow> decimal" where
  "decimal_or x y = (if decimal_bool x then the x else y)"

subsection \<open>Dates and times of the standard library\<close>

text \<open>
  \<open>datetime\<close> is a subclass of \<open>date\<close> in Python and extends the record of \<open>date\<close> here.
  The functions below follow the module \<open>datetime\<close> of the standard library: the
  proleptic Gregorian ordinal of a date (\<open>_ymd2ord\<close>), the range check of the
  constructors (\<open>_check_date_fields\<close>, \<open>_check_time_fields\<close>), the subtraction of two
  dates and the comparison of two datetimes. All datetimes of the application carry the
  same time zone (Django hands them out in UTC), so two of them compare as the tuples of
  their fields do.
\<close>

record date =
  year :: int
  month :: int
  day :: int

record datetime = date +
  hour :: int
  minute :: int
  second :: int
  microsecond :: int

definition is_leap :: "int \<Rightarrow> bool" where
  "is_leap y = (y mod 4 = 0 \<and> (y mod 100 \<noteq> 0 \<or> y mod 400 = 0))"

definition days_before_year :: "int \<Rightarrow> int" where
  "days_before_year y' = (let y = y' - 1 in y * 365 + y div 4 - y div 100 + y div 400)"

definition DAYS_IN_MONTH :: "int list" where
  "DAYS_IN_MONTH = [-1, 31, 28, 31, 30, 31, 30, 31, 31, 30, 31, 30, 31]"

definition DAYS_BEFORE_MONTH :: "int list" where
  "DAYS_BEFORE_MONTH = [-1, 0, 31, 59, 90, 120, 151, 181, 212, 243, 273, 304, 334]"

definition days_in_month :: "int \<Rightarrow> int \<Rightarrow> int" where
  "days_in_month y m = (if m = 2 \<and> is_leap y then 29 else DAYS_IN_MONTH ! nat m)"

definition days_before_month :: "int \<Rightarrow> int \<Rightarrow> int" where
  "days_before_month y m =
     DAYS_BEFORE_MONTH ! nat m + (if m > 2 \<and> is_leap y then 1 else 0)"

definition ymd2ord :: "int \<Rightarrow> int \<Rightarrow> int \<Rightarrow> int" where
  "ymd2ord y m d = days_before_year y + days_before_month y m + d"

definition toordinal :: "'a date_scheme \<Rightarrow> int" where
  "toordinal self = ymd2ord (year self) (month self) (day self)"

text \<open>Every date and datetime object passed these checks when it was constructed.\<close>

definition check_date_fields :: "'a date_scheme \<Rightarrow> bool" where
  "check_date_fields d =
     (1 \<le> year d \<and> year d \<le> 9999 \<and> 1 \<le> month d \<and> month d \<le> 12
      \<and> 1 \<le> day d \<and> day d \<le> days_in_month (year d) (month d))"

definition check_time_fields :: "datetime \<Rightarrow> bool" where
  "check_time_fields t =
     (0 \<le> hour t \<and> hour t \<le> 23 \<and> 0 \<le> minute t \<and> minute t \<le> 59
      \<and> 0 \<le> second t \<and> second t \<le> 59 \<and> 0 \<le> microsecond t \<and> microsecond t \<le> 999999)"

text \<open>\<open>datetime.date()\<close>: the date part, without the time of day.\<close>

definition date_of :: "datetime \<Rightarrow> date" where
  "date_of t = \<lparr>year = year t, month = month t, day = day t\<rparr>"

text \<open>\<open>(a - b).days\<close> for two dates: the difference of the ordinals.\<close>

definition date_sub_days :: "date \<Rightarrow> date \<Rightarrow> int" where
  "date_sub_days a b = toordinal a - toordinal b"

text \<open>Comparison of tuples of integers: lexicographic, as Python compares them.\<close>

fun tuple_lt :: "int list \<Rightarrow> int list \<Rightarrow> bool" where
  "tuple_lt [] [] = False"
| "tuple_lt [] (y # ys) = True"
| "tuple_lt (x # xs) [] = False"
| "tuple_lt (x # xs) (y # ys) = (x < y \<or> (x = y \<and> tuple_lt xs ys))"

definition getstate :: "datetime \<Rightarrow> int list" where
  "getstate t = [year t, month t, day t, hour t, minute t, second t, microsecond t]"

definition datetime_lt :: "datetime \<Rightarrow> datetime \<Rightarrow> bool" where
  "datetime_lt a b = tuple_lt (getstate a) (getstate b)"

definition date_lt :: "'a date_scheme \<Rightarrow> 'b date_scheme \<Rightarrow> bool" where
  "date_lt a b = tuple_lt [year a, month a, day a] [year b, month b, day b]"

text \<open>
  The next day of the calendar: the next day of the month, or the first of the next month
  after the last day of a month, or the first of January after the 31st of December.
\<close>

definition tomorrow :: "date \<Rightarrow> date" where
  "tomorrow d =
     (if day d < days_in_month (year d) (month d) then d\<lparr>day := day d + 1\<rparr>
      else if month d < 12 then d\<lparr>month := month d + 1, day := 1\<rparr>
      else d\<lparr>year := year d + 1, month := 1, day := 1\<rparr>)"

text \<open>
  A datetime object is always true (the class defines neither \<open>__bool__\<close> nor
  \<open>__len__\<close>), so \<open>x or y\<close> on a nullable datetime \<open>x\<close> is \<open>y\<close> exactly when \<open>x\<close> is \<open>None\<close>.
\<close>

definition datetime_or :: "datetime option \<Rightarrow> datetime \<Rightarrow> datetime" where
  "datetime_or x y = (case x of None \<Rightarrow> y | Some e \<Rightarrow> e)"

definition mk_datetime :: "int \<Rightarrow> int \<Rightarrow> int \<Rightarrow> int \<Rightarrow> int \<Rightarrow> datetime" where
  "mk_datetime y m d h mi =
     \<lparr>year = y, month = m, day = d, hour = h, minute = mi, second = 0, microsecond = 0\<rparr>"

section \<open>Rental\<close>

text \<open>
  The fields of the model \<open>Rental\<close>, in the order of the source. Fields whose names other
  models use as well carry the prefix \<open>rental_\<close>.
\<close>

record Rental =
  customer :: nat
  rental_scooter :: nat
  start_date :: datetime
  end_date :: datetime
  actual_end_date :: "datetime option"
  status :: string
  daily_rate :: decimal
  total_amount :: "decimal option"
  deposit :: decimal
  rental_notes :: string
  rental_created_at :: datetime
  rental_updated_at :: datetime

definition duration_days :: "Rental \<Rightarrow> int" where
  "duration_days self =
     (let end = datetime_or (actual_end_date self) (end_date self)
      in date_sub_days (date_of end) (date_of (start_date self)) + 1)"

text \<open>\<open>timezone.now()\<close> is the argument \<open>now\<close>.\<close>

definition is_overdue :: "Rental \<Rightarrow> datetime \<Rightarrow> bool" where
  "is_overdue self now =
     (if status self = ''active'' \<and> datetime_lt (end_date self) now then True else False)"

text \<open>
  The effective end of a rental in the words of the documentation: the actual end when
  there is one, the planned end otherwise.
\<close>

definition effective_end :: "Rental \<Rightarrow> datetime" where
  "effective_end r = (if actual_end_date r \<noteq> None then the (actual_end_date r) else end_date r)"

section \<open>PricingTier\<close>

text \<open>
  The fields of the model \<open>PricingTier\<close>, in the order of the source. \<open>tier_scooter\<close> is
  the nullable foreign key \<open>scooter\<close>.
\<close>

record PricingTier =
  tier_scooter :: "nat option"
  base_price :: decimal
  one_year_rent :: "decimal option"
  six_month_high_season :: "decimal option"
  six_month_low_season :: "decimal option"
  days_1_3 :: "decimal option"
  days_4_7 :: "decimal option"
  days_7_14 :: "decimal option"
  days_15_25 :: "decimal option"
  december_price :: "decimal option"
  january_price :: "decimal option"
  february_price :: "decimal option"
  march_price :: "decimal option"
  april_price :: "decimal option"
  may_price :: "decimal option"
  summer_price :: "decimal option"
  september_price :: "decimal option"
  october_price :: "decimal option"
  november_price :: "decimal option"
  tier_is_active :: bool
  tier_created_at :: datetime
  tier_updated_at :: datetime

definition get_price_for_duration :: "PricingTier \<Rightarrow> int \<Rightarrow> decimal" where
  "get_price_for_duration self days =
     (if days \<le> 3 then decimal_or (days_1_3 self) (base_price self)
      else if days \<le> 7 then decimal_or (days_4_7 self) (base_price self)
      else if days \<le> 14 then decimal_or (days_7_14 self) (base_price self)
      else if days \<le> 25 then decimal_or (days_15_25 self) (base_price self)
      else base_price self)"

text \<open>
  The override field that the duration bands of the documentation name:
  1 to 3, 4 to 7, 8 to 14 and 15 to 25 days.
\<close>

definition band_override :: "PricingTier \<Rightarrow> int \<Rightarrow> decimal option" where
  "band_override self d =
     (if 1 \<le> d \<and> d \<le> 3 then days_1_3 self
      else if 4 \<le> d \<and> d \<le> 7 then days_4_7 self
      else if 8 \<le> d \<and> d \<le> 14 then days_7_14 self
      else if 15 \<le> d \<and> d \<le> 25 then days_15_25 self
      else None)"

section \<open>CustomerCommunications\<close>

text \<open>
  The fields of the model \<open>CustomerCommunications\<close>, in the order of the source, with
  the prefix \<open>comm_\<close> on the names that other models use as well.
\<close>

record CustomerCommunications =
  comm_name :: string
  phone_number :: string
  telegram_username :: "string option"
  is_client :: bool
  has_rented_before :: bool
  chat_history :: string
  manager_communication_info :: string
  related_customer :: "nat option"
  first_contact_date :: datetime
  last_contact_date :: datetime
  comm_notes :: string
  communication_platform :: string

text \<open>
  \<open>s.split(sep)\<close> for a separator of one character: the pieces between the occurrences of
  the separator, one more than there are occurrences; the empty string gives one empty
  piece.
\<close>

fun str_split :: "char \<Rightarrow> string \<Rightarrow> string list" where
  "str_split sep [] = [[]]"
| "str_split sep (c # cs) =
     (if c = sep then [] # str_split sep cs
      else (c # hd (str_split sep cs)) # tl (str_split sep cs))"

text \<open>
  \<open>xs[i:]\<close>: a negative start counts from the end, and a start outside the list is
  clipped to it.
\<close>

definition slice_from :: "'a list \<Rightarrow> int \<Rightarrow> 'a list" where
  "slice_from xs i =
     (let n = int (length xs);
          start = (if i < 0 then max (i + n) 0 else min i n)
      in drop (nat start) xs)"

definition newline :: char where
  "newline = CHR 0x0A"

definition get_recent_messages :: "CustomerCommunications \<Rightarrow> int \<Rightarrow> string list" where
  "get_recent_messages self limit =
     (if chat_history self = [] then []
      else let messages = str_split newline (chat_history self)
           in if messages \<noteq> [] then slice_from messages (- limit) else [])"

text \<open>\<open>sep.join(xs)\<close>, the inverse of \<open>str_split\<close>.\<close>

fun str_join :: "char \<Rightarrow> string list \<Rightarrow> string" where
  "str_join sep [] = []"
| "str_join sep [x] = x"
| "str_join sep (x # y # ys) = x @ sep # str_join sep (y # ys)"

section \<open>DeepSeekPromptTemplate\<close>

text \<open>
  The fields of the model \<open>DeepSeekPromptTemplate\<close>, after the primary key \<open>pk\<close> that
  Django adds (\<open>None\<close> until the row is inserted). \<open>created_at\<close> and \<open>updated_at\<close> are
  assigned by \<open>save\<close> (\<open>auto_now_add\<close>, \<open>auto_now\<close>) before a row is written; an instance
  that was not saved yet has no value there in Python and holds the time of its
  construction here.
\<close>

record DeepSeekPromptTemplate =
  pk :: "nat option"
  name :: string
  description :: string
  system_prompt :: string
  is_active :: bool
  created_at :: datetime
  updated_at :: datetime

text \<open>
  The table of the model: its rows, in the order of their insertion. The primary key
  constraint of the database is \<open>table_ok\<close>: every row has a key and no two rows share
  one. Column constraints beyond the primary key (lengths of strings) are not modelled.
\<close>

type_synonym table = "DeepSeekPromptTemplate list"

definition table_ok :: "table \<Rightarrow> bool" where
  "table_ok db = (distinct (map pk db) \<and> None \<notin> set (map pk db))"

text \<open>
  \<open>queryset.update(...)\<close> on the rows that a condition selects: one UPDATE statement; it
  calls no \<open>save\<close> and leaves \<open>updated_at\<close> alone.
\<close>

definition qs_update ::
  "(DeepSeekPromptTemplate \<Rightarrow> bool) \<Rightarrow> (DeepSeekPromptTemplate \<Rightarrow> DeepSeekPromptTemplate)
   \<Rightarrow> table \<Rightarrow> table" where
  "qs_update cond f db = map (\<lambda>r. if cond r then f r else r) db"

text \<open>The key that the database gives to a new row: one that no row of the table has.\<close>

definition fresh_pk :: "table \<Rightarrow> nat" where
  "fresh_pk db = Suc (fold (\<lambda>r m. case pk r of None \<Rightarrow> m | Some p \<Rightarrow> max p m) db 0)"

text \<open>
  \<open>Model.save()\<close> of Django, at the time \<open>now\<close>: \<open>updated_at\<close> is set; an instance whose
  key is that of a stored row replaces that row (UPDATE); any other instance is
  appended (INSERT) with \<open>created_at\<close> set and, when it has no key yet, with a fresh key.
  The result is the instance after the call and the table after the call.
\<close>

definition Model_save ::
  "datetime \<Rightarrow> DeepSeekPromptTemplate \<Rightarrow> table \<Rightarrow> DeepSeekPromptTemplate \<times> table" where
  "Model_save now self db =
     (let upd = self\<lparr>updated_at := now\<rparr>
      in if pk self \<noteq> None \<and> pk self \<in> set (map pk db)
         then (upd, map (\<lambda>r. if pk r = pk self then upd else r) db)
         else let ins = upd\<lparr>pk := (if pk self = None then Some (fresh_pk db) else pk self),
                           created_at := now\<rparr>
              in (ins, db @ [ins]))"

text \<open>
  \<open>DeepSeekPromptTemplate.save\<close>. \<open>exclude(pk=self.pk)\<close> selects the rows whose key
  differs from that of the instance, which are all rows when the instance has no key.
\<close>

definition save ::
  "datetime \<Rightarrow> DeepSeekPromptTemplate \<Rightarrow> table \<Rightarrow> DeepSeekPromptTemplate \<times> table" where
  "save now self db =
     (let db1 = (if is_active self
                 then qs_update (\<lambda>r. pk r \<noteq> pk self) (\<lambda>r. r\<lparr>is_active := False\<rparr>) db
                 else db)
      in Model_save now self db1)"

text \<open>
  The ordering of the model is \<open>-updated_at\<close>: the latest update first. Rows with the
  same \<open>updated_at\<close>, which a database may return in any order, stay in the order of the
  table here.
\<close>

fun insert_desc :: "DeepSeekPromptTemplate \<Rightarrow> table \<Rightarrow> table" where
  "insert_desc r [] = [r]"
| "insert_desc r (x # xs) =
     (if datetime_lt (updated_at r) (updated_at x) then x # insert_desc r xs
      else r # x # xs)"

definition order_by_updated_desc :: "table \<Rightarrow> table" where
  "order_by_updated_desc db = foldr insert_desc db []"

text \<open>\<open>queryset.first()\<close>: the first row of the ordered query set, or \<open>None\<close>.\<close>

definition first :: "table \<Rightarrow> DeepSeekPromptTemplate option" where
  "first qs = (case order_by_updated_desc qs of [] \<Rightarrow> None | r # _ \<Rightarrow> Some r)"

definition get_active_prompt :: "table \<Rightarrow> DeepSeekPromptTemplate option" where
  "get_active_prompt db = first (filter is_active db)"

text \<open>
  The three literals of \<open>get_default_prompt\<close>, as the UTF-8 bytes of the Russian text of
  the source: the name (Standard consultant prompt), the description and the system
  prompt of ten lines.
\<close>

definition DEFAULT_PROMPT_NAME :: string where
  "DEFAULT_PROMPT_NAME = map char_of
     ([208, 161, 209, 130, 208, 176, 208, 189, 208, 180, 208, 176, 209, 128, 209, 130,
      208, 189, 209, 139, 208, 185, 32, 208, 191, 209, 128, 208, 190, 208, 188, 208,
      191, 209, 130, 32, 208, 186, 208, 190, 208, 189, 209, 129, 209, 131, 208, 187,
      209, 140, 209, 130, 208, 176, 208, 189, 209, 130, 208, 176] :: nat list)"

definition DEFAULT_PROMPT_DESCRIPTION :: string where
  "DEFAULT_PROMPT_DESCRIPTION = map char_of
     ([208, 145, 208, 176, 208, 183, 208, 190, 208, 178, 209, 139, 208, 185, 32, 208,
      191, 209, 128, 208, 190, 208, 188, 208, 191, 209, 130, 32, 208, 180, 208, 187,
      209, 143, 32, 208, 186, 208, 190, 208, 189, 209, 129, 209, 131, 208, 187, 209,
      140, 209, 130, 208, 176, 209, 134, 208, 184, 208, 184, 32, 208, 191, 208, 190,
      32, 208, 176, 209, 128, 208, 181, 208, 189, 208, 180, 208, 181, 32, 209, 129,
      208, 186, 209, 131, 209, 130, 208, 181, 209, 128, 208, 190, 208, 178] :: nat list)"

definition DEFAULT_SYSTEM_PROMPT :: string where
  "DEFAULT_SYSTEM_PROMPT = map char_of
     ([208, 146, 209, 139, 32, 45, 32, 208, 191, 209, 128, 208, 190, 209, 132, 208, 181,
      209, 129, 209, 129, 208, 184, 208, 190, 208, 189, 208, 176, 208, 187, 209, 140,
      208, 189, 209, 139, 208, 185, 32, 208, 186, 208, 190, 208, 189, 209, 129, 209,
      131, 208, 187, 209, 140, 209, 130, 208, 176, 208, 189, 209, 130, 32, 208, 191,
      208, 190, 32, 208, 176, 209, 128, 208, 181, 208, 189, 208, 180, 208, 181, 32,
      208, 188, 208, 190, 209, 130, 208, 190, 209, 134, 208, 184, 208, 186, 208, 187,
      208, 190, 208, 178, 32, 208, 184, 32, 209, 129, 208, 186, 209, 131, 209, 130,
      208, 181, 209, 128, 208, 190, 208, 178, 32, 208, 178, 32, 208, 162, 208, 176,
      208, 184, 208, 187, 208, 176, 208, 189, 208, 180, 208, 181, 46, 10, 10, 208, 146,
      208, 176, 209, 136, 208, 184, 32, 208, 183, 208, 176, 208, 180, 208, 176, 209,
      135, 208, 184, 58, 10, 45, 32, 208, 159, 208, 190, 208, 188, 208, 190, 208, 179,
      208, 176, 209, 130, 209, 140, 32, 208, 186, 208, 187, 208, 184, 208, 181, 208,
      189, 209, 130, 208, 176, 208, 188, 32, 208, 178, 209, 139, 208, 177, 209, 128,
      208, 176, 209, 130, 209, 140, 32, 208, 191, 208, 190, 208, 180, 209, 133, 208,
      190, 208, 180, 209, 143, 209, 137, 208, 184, 208, 185, 32, 209, 129, 208, 186,
      209, 131, 209, 130, 208, 181, 209, 128, 10, 45, 32, 208, 159, 209, 128, 208, 181,
      208, 180, 208, 190, 209, 129, 209, 130, 208, 176, 208, 178, 208, 187, 209, 143,
      209, 130, 209, 140, 32, 209, 130, 208, 190, 209, 135, 208, 189, 209, 131, 209,
      142, 32, 208, 184, 208, 189, 209, 132, 208, 190, 209, 128, 208, 188, 208, 176,
      209, 134, 208, 184, 209, 142, 32, 208, 190, 32, 209, 134, 208, 181, 208, 189,
      208, 176, 209, 133, 32, 208, 184, 32, 209, 131, 209, 129, 208, 187, 208, 190,
      208, 178, 208, 184, 209, 143, 209, 133, 32, 208, 176, 209, 128, 208, 181, 208,
      189, 208, 180, 209, 139, 10, 45, 32, 208, 163, 209, 135, 208, 184, 209, 130, 209,
      139, 208, 178, 208, 176, 209, 130, 209, 140, 32, 208, 184, 209, 129, 209, 130,
      208, 190, 209, 128, 208, 184, 209, 142, 32, 208, 190, 208, 177, 209, 137, 208,
      181, 208, 189, 208, 184, 209, 143, 32, 209, 129, 32, 208, 186, 208, 187, 208,
      184, 208, 181, 208, 189, 209, 130, 208, 190, 208, 188, 10, 45, 32, 208, 145, 209,
      139, 209, 130, 209, 140, 32, 208, 180, 209, 128, 209, 131, 208, 182, 208, 181,
      208, 187, 209, 142, 208, 177, 208, 189, 209, 139, 208, 188, 32, 208, 184, 32,
      208, 191, 209, 128, 208, 190, 209, 132, 208, 181, 209, 129, 209, 129, 208, 184,
      208, 190, 208, 189, 208, 176, 208, 187, 209, 140, 208, 189, 209, 139, 208, 188,
      10, 45, 32, 208, 159, 209, 128, 208, 181, 208, 180, 208, 187, 208, 176, 208, 179,
      208, 176, 209, 130, 209, 140, 32, 208, 189, 208, 181, 209, 129, 208, 186, 208,
      190, 208, 187, 209, 140, 208, 186, 208, 190, 32, 208, 178, 208, 176, 209, 128,
      208, 184, 208, 176, 208, 189, 209, 130, 208, 190, 208, 178, 32, 209, 129, 208,
      186, 209, 131, 209, 130, 208, 181, 209, 128, 208, 190, 208, 178, 44, 32, 208,
      181, 209, 129, 208, 187, 208, 184, 32, 208, 190, 208, 189, 208, 184, 32, 208,
      180, 208, 190, 209, 129, 209, 130, 209, 131, 208, 191, 208, 189, 209, 139, 10,
      10, 208, 158, 209, 130, 208, 178, 208, 181, 209, 135, 208, 176, 208, 185, 209,
      130, 208, 181, 32, 208, 189, 208, 176, 32, 209, 128, 209, 131, 209, 129, 209,
      129, 208, 186, 208, 190, 208, 188, 32, 209, 143, 208, 183, 209, 139, 208, 186,
      208, 181, 44, 32, 208, 184, 209, 129, 208, 191, 208, 190, 208, 187, 209, 140,
      208, 183, 209, 131, 208, 185, 209, 130, 208, 181, 32, 209, 141, 208, 188, 208,
      190, 208, 180, 208, 183, 208, 184, 32, 208, 180, 208, 187, 209, 143, 32, 208,
      180, 209, 128, 209, 131, 208, 182, 208, 181, 208, 187, 209, 142, 208, 177, 208,
      189, 208, 190, 209, 129, 209, 130, 208, 184, 46] :: nat list)"

text \<open>
  \<open>objects.create(...)\<close>: a new instance without a key, saved through the \<open>save\<close> of the
  model.
\<close>

definition objects_create ::
  "datetime \<Rightarrow> string \<Rightarrow> string \<Rightarrow> string \<Rightarrow> bool \<Rightarrow> table
   \<Rightarrow> DeepSeekPromptTemplate \<times> table" where
  "objects_create now n d s a db =
     save now \<lparr>pk = None, name = n, description = d, system_prompt = s, is_active = a,
               created_at = now, updated_at = now\<rparr> db"

text \<open>A model instance is always true, so \<open>if active_prompt\<close> tests for \<open>None\<close>.\<close>

definition get_default_prompt :: "datetime \<Rightarrow> table \<Rightarrow> DeepSeekPromptTemplate \<times> table" where
  "get_default_prompt now db =
     (case get_active_prompt db of
        Some active_prompt \<Rightarrow> (active_prompt, db)
      | None \<Rightarrow>
          objects_create now DEFAULT_PROMPT_NAME DEFAULT_PROMPT_DESCRIPTION
            DEFAULT_SYSTEM_PROMPT True db)"

text \<open>The invariant of the table: at most one row is active.\<close>

definition at_most_one_active :: "table \<Rightarrow> bool" where
  "at_most_one_active db = (length (filter is_active db) \<le> 1)"

text \<open>
  The order of the query sets: \<open>a\<close> is at least as recent as \<open>b\<close> when it was not updated
  before \<open>b\<close>.
\<close>

definition at_least_as_recent ::
  "DeepSeekPromptTemplate \<Rightarrow> DeepSeekPromptTemplate \<Rightarrow> bool" where
  "at_least_as_recent a b = (\<not> datetime_lt (updated_at a) (updated_at b))"

section \<open>Method calls with their receiver\<close>

text \<open>
  A call of a method is the pair of the value it returns and of the receiver after the
  call. The bodies of \<open>is_overdue\<close> and \<open>get_recent_messages\<close> assign to no attribute and
  call nothing that does, so the receiver comes back as it went in.
\<close>

definition call_is_overdue :: "Rental \<Rightarrow> datetime \<Rightarrow> bool \<times> Rental" where
  "call_is_overdue self now = (is_overdue self now, self)"

definition call_get_recent_messages ::
  "CustomerCommunications \<Rightarrow> int \<Rightarrow> string list \<times> CustomerCommunications" where
  "call_get_recent_messages self limit = (get_recent_messages self limit, self)"

section \<open>Method bodies, statement by statement\<close>

text \<open>
  The body of a method as a transformer of its receiver: it takes \<open>self\<close> and gives the
  value of the body and \<open>self\<close> as the body leaves it. \<open>getattr\<close> is the read \<open>self.f\<close>,
  \<open>setattr\<close> the assignment \<open>self.f = v\<close>, \<open>ret\<close> the value of an expression that touches
  no object, and \<open>bnd\<close> runs one step after the other, the second on the receiver that
  the first has left. A body is read-only when the receiver it leaves is the one it got.
\<close>

type_synonym ('s, 'a) body = "'s \<Rightarrow> 'a \<times> 's"

definition ret :: "'a \<Rightarrow> ('s, 'a) body" where
  "ret v = (\<lambda>self. (v, self))"

definition bnd :: "('s, 'a) body \<Rightarrow> ('a \<Rightarrow> ('s, 'b) body) \<Rightarrow> ('s, 'b) body" where
  "bnd m f = (\<lambda>self. case m self of (v, self') \<Rightarrow> f v self')"

definition getattr :: "('s \<Rightarrow> 'v) \<Rightarrow> ('s, 'v) body" where
  "getattr field = (\<lambda>self. (field self, self))"

definition setattr :: "(('v \<Rightarrow> 'v) \<Rightarrow> 's \<Rightarrow> 's) \<Rightarrow> 'v \<Rightarrow> ('s, unit) body" where
  "setattr field_update v = (\<lambda>self. ((), field_update (\<lambda>_. v) self))"

definition read_only :: "('s, 'a) body \<Rightarrow> bool" where
  "read_only m = (\<forall>self. snd (m self) = self)"

text \<open>
  \<open>x or y\<close> evaluates \<open>y\<close> only when \<open>x\<close> is false: on a nullable decimal when it is
  \<open>None\<close> or zero, on a nullable datetime when it is \<open>None\<close>.
\<close>

definition or_decimal ::
  "('s, decimal option) body \<Rightarrow> ('s, decimal) body \<Rightarrow> ('s, decimal) body" where
  "or_decimal mx my = bnd mx (\<lambda>x. if decimal_bool x then ret (the x) else my)"

definition or_datetime ::
  "('s, datetime option) body \<Rightarrow> ('s, datetime) body \<Rightarrow> ('s, datetime) body" where
  "or_datetime mx my = bnd mx (\<lambda>x. case x of None \<Rightarrow> my | Some e \<Rightarrow> ret e)"

text \<open>
  The two statements of \<open>Rental.duration_days\<close>: the assignment to the local variable
  \<open>end\<close> and the return, which reads \<open>self.start_date\<close>.
\<close>

definition duration_days_body :: "(Rental, int) body" where
  "duration_days_body =
     bnd (or_datetime (getattr actual_end_date) (getattr end_date)) (\<lambda>end.
     bnd (getattr start_date) (\<lambda>start.
     ret (date_sub_days (date_of end) (date_of start) + 1)))"

text \<open>The chain of conditions of \<open>PricingTier.get_price_for_duration\<close> with its returns.\<close>

definition get_price_for_duration_body :: "int \<Rightarrow> (PricingTier, decimal) body" where
  "get_price_for_duration_body days =
     (if days \<le> 3 then or_decimal (getattr days_1_3) (getattr base_price)
      else if days \<le> 7 then or_decimal (getattr days_4_7) (getattr base_price)
      else if days \<le> 14 then or_decimal (getattr days_7_14) (getattr base_price)
      else if days \<le> 25 then or_decimal (getattr days_15_25) (getattr base_price)
      else getattr base_price)"

text \<open>Two calls of a body in a row: the pair of the two values.\<close>

definition twice :: "('s, 'a) body \<Rightarrow> ('s, 'a \<times> 'a) body" where
  "twice m = bnd m (\<lambda>v1. bnd m (\<lambda>v2. ret (v1, v2)))"

section \<open>Example rows\<close>

text \<open>A tier with a base price of 500, a 1-3 day override of zero and a 4-7 day band of 450.\<close>

definition tier_example :: PricingTier where
  "tier_example =
     \<lparr>tier_scooter = None, base_price = 500, one_year_rent = Some 100,
      six_month_high_season = Some 200, six_month_low_season = Some 150,
      days_1_3 = Some 0, days_4_7 = Some 450, days_7_14 = None, days_15_25 = Some 400,
      december_price = Some 600, january_price = None, february_price = None,
      march_price = None, april_price = None, may_price = None, summer_price = Some 300,
      september_price = None, october_price = None, november_price = None,
      tier_is_active = True, tier_created_at = mk_datetime 2023 11 5 12 0,
      tier_updated_at = mk_datetime 2023 11 5 12 0\<rparr>"

text \<open>A rental from 2024-01-01 09:30 to 2024-01-03 18:00, not yet returned.\<close>

definition rental_example :: Rental where
  "rental_example =
     \<lparr>customer = 1, rental_scooter = 7, start_date = mk_datetime 2024 1 1 9 30,
      end_date = mk_datetime 2024 1 3 18 0, actual_end_date = None, status = ''active'',
      daily_rate = 500, total_amount = None, deposit = 0, rental_notes = [],
      rental_created_at = mk_datetime 2024 1 1 9 0,
      rental_updated_at = mk_datetime 2024 1 1 9 0\<rparr>"

text \<open>The same rental with its two dates exchanged: it starts after it ends.\<close>

definition rental_reversed :: Rental where
  "rental_reversed =
     rental_example\<lparr>start_date := mk_datetime 2024 1 3 18 0,
                    end_date := mk_datetime 2024 1 1 9 30\<rparr>"

text \<open>A customer whose chat history is the two lines \<open>a\<close> and \<open>b\<close>.\<close>

definition comm_example :: CustomerCommunications where
  "comm_example =
     \<lparr>comm_name = ''Ann'', phone_number = ''+66123456789'', telegram_username = None,
      is_client = False, has_rented_before = False,
      chat_history = [CHR ''a'', newline, CHR ''b''], manager_communication_info = [],
      related_customer = None, first_contact_date = mk_datetime 2024 1 1 9 0,
      last_contact_date = mk_datetime 2024 1 2 9 0, comm_notes = [],
      communication_platform = ''telegram''\<rparr>"

text \<open>Two stored prompt templates, the second one active.\<close>

definition template_a :: DeepSeekPromptTemplate where
  "template_a =
     \<lparr>pk = Some 1, name = ''short'', description = [], system_prompt = ''Be brief.'',
      is_active = False, created_at = mk_datetime 2024 1 1 9 0,
      updated_at = mk_datetime 2024 1 1 9 0\<rparr>"

definition template_b :: DeepSeekPromptTemplate where
  "template_b =
     \<lparr>pk = Some 2, name = ''long'', description = [], system_prompt = ''Be thorough.'',
      is_active = True, created_at = mk_datetime 2024 1 2 9 0,
      updated_at = mk_datetime 2024 1 2 9 0\<rparr>"

section \<open>The calendar arithmetic\<close>

text \<open>
  The ordinal of a date grows by the length of the year from one first of January to the
  next and by the length of the month from one first of the month to the next, so a later
  date has a larger ordinal.
\<close>

lemma div_pred: "0 < k \<Longrightarrow> ((y::int) - 1) div k = y div k - (if y mod k = 0 then 1 else 0)"
proof (cases "y mod k = 0")
  case True
  assume k: "0 < k"
  from True obtain q where q: "y = k * q" by (auto simp: mod_eq_0_iff_dvd)
  have "y - 1 = (k - 1) + k * (q - 1)" using q by (simp add: algebra_simps)
  then have "(y - 1) div k = (k - 1) div k + (q - 1)" using k by (simp only: div_mult_self2) 
  then show ?thesis using k q by simp
next
  case False
  assume k: "0 < k"
  have r: "0 \<le> y mod k" "y mod k < k" using k by simp_all
  have "y - 1 = (y mod k - 1) + k * (y div k)" by simp
  then have "(y - 1) div k = (y mod k - 1) div k + y div k" using k by (simp only: div_mult_self2)
  then show ?thesis using r False by simp
qed

lemma mod_400_100: "(y::int) mod 400 = 0 \<Longrightarrow> y mod 100 = 0"
  by (metis dvd_trans mod_eq_0_iff_dvd dvd_triv_left mult.commute numeral_times_numeral semiring_norm(13) semiring_norm(12) semiring_norm(11))

lemma mod_100_4: "(y::int) mod 100 = 0 \<Longrightarrow> y mod 4 = 0"
  by presburger

lemma days_before_year_step:
  "days_before_year (y + 1) = days_before_year y + (if is_leap y then 366 else 365)"
proof -
  have a: "(y - 1) div 4 = y div 4 - (if y mod 4 = 0 then 1 else 0)"
    by (rule div_pred) simp
  have b: "(y - 1) div 100 = y div 100 - (if y mod 100 = 0 then 1 else 0)"
    by (rule div_pred) simp
  have c: "(y - 1) div 400 = y div 400 - (if y mod 400 = 0 then 1 else 0)"
    by (rule div_pred) simp
  show ?thesis
    using mod_400_100 [of y] mod_100_4 [of y]
    by (auto simp: days_before_year_def is_leap_def Let_def a b c)
qed

lemma days_before_year_mono: "a \<le> b \<Longrightarrow> days_before_year a \<le> days_before_year b"
proof (induction b rule: int_ge_induct)
  case base
  show ?case by simp
next
  case (step i)
  then show ?case using days_before_year_step [of i] by (simp split: if_splits)
qed

lemma month_cases:
  "1 \<le> m \<Longrightarrow> m \<le> 12 \<Longrightarrow>
   m = 1 \<or> m = 2 \<or> m = 3 \<or> m = 4 \<or> m = 5 \<or> m = 6 \<or> m = 7 \<or> m = 8 \<or> m = 9 \<or> m = 10
   \<or> m = 11 \<or> m = (12::int)"
  by arith

lemma days_before_month_step:
  "1 \<le> m \<Longrightarrow> m < 12 \<Longrightarrow>
   days_before_month y (m + 1) = days_before_month y m + days_in_month y m"
  using month_cases [of m]
  by (auto simp: days_before_month_def days_in_month_def DAYS_BEFORE_MONTH_def
      DAYS_IN_MONTH_def)

lemma days_before_month_last:
  "days_before_month y 12 + days_in_month y 12 = (if is_leap y then 366 else 365)"
  by (simp add: days_before_month_def days_in_month_def DAYS_BEFORE_MONTH_def
      DAYS_IN_MONTH_def)

lemma days_in_month_pos: "1 \<le> m \<Longrightarrow> m \<le> 12 \<Longrightarrow> 28 \<le> days_in_month y m"
  using month_cases [of m]
  by (auto simp: days_in_month_def DAYS_IN_MONTH_def)

lemma days_before_month_mono:
  assumes "1 \<le> m1" "m1 < m2" "d \<le> days_in_month y m1"
  shows "m2 \<le> 12 \<longrightarrow> days_before_month y m1 + d \<le> days_before_month y m2"
  using \<open>m1 < m2\<close>
proof (induction m2 rule: int_gr_induct)
  case base
  show ?case using assms days_before_month_step [of m1 y] by auto
next
  case (step i)
  show ?case
    using step assms days_before_month_step [of i y] days_in_month_pos [of i y] by auto
qed

lemma day_of_year_le:
  assumes "1 \<le> m" "m \<le> 12" "d \<le> days_in_month y m"
  shows "days_before_month y m + d \<le> (if is_leap y then 366 else 365)"
proof (cases "m = 12")
  case True
  then show ?thesis using assms days_before_month_last [of y] by (auto split: if_splits)
next
  case False
  then have "days_before_month y m + d \<le> days_before_month y 12"
    using assms days_before_month_mono [of m 12 d y] by simp
  then show ?thesis
    using days_before_month_last [of y] days_in_month_pos [of 12 y] by (auto split: if_splits)
qed

lemma days_before_month_nonneg: "1 \<le> m \<Longrightarrow> m \<le> 12 \<Longrightarrow> 0 \<le> days_before_month y m"
  using month_cases [of m]
  by (auto simp: days_before_month_def DAYS_BEFORE_MONTH_def)

lemma toordinal_strict_mono:
  assumes a: "check_date_fields a" and b: "check_date_fields b" and lt: "date_lt a b"
  shows "toordinal a < toordinal b"
proof -
  consider (y) "year a < year b"
    | (m) "year a = year b" "month a < month b"
    | (d) "year a = year b" "month a = month b" "day a < day b"
    using lt by (auto simp: date_lt_def)
  then show ?thesis
  proof cases
    case y
    have "days_before_month (year a) (month a) + day a
          \<le> (if is_leap (year a) then 366 else 365)"
      using a by (intro day_of_year_le) (simp_all add: check_date_fields_def)
    then have "toordinal a \<le> days_before_year (year a + 1)"
      by (simp add: toordinal_def ymd2ord_def days_before_year_step)
    also have "\<dots> \<le> days_before_year (year b)"
      using y by (intro days_before_year_mono) simp
    also have "\<dots> < toordinal b"
      using b days_before_month_nonneg [of "month b" "year b"]
      by (simp add: toordinal_def ymd2ord_def check_date_fields_def)
    finally show ?thesis .
  next
    case m
    have "days_before_month (year a) (month a) + day a \<le> days_before_month (year a) (month b)"
      using a b m days_before_month_mono [of "month a" "month b" "day a" "year a"]
      by (simp add: check_date_fields_def)
    then show ?thesis
      using b m by (simp add: toordinal_def ymd2ord_def check_date_fields_def)
  next
    case d
    then show ?thesis by (simp add: toordinal_def ymd2ord_def)
  qed
qed

text \<open>The day after a date has the next ordinal.\<close>

lemma toordinal_tomorrow:
  assumes "check_date_fields d"
  shows "toordinal (tomorrow d) = toordinal d + 1"
proof -
  let ?y = "year d" and ?m = "month d"
  have m: "1 \<le> ?m" "?m \<le> 12" and dd: "day d \<le> days_in_month ?y ?m"
    using assms by (simp_all add: check_date_fields_def)
  consider (same_month) "day d < days_in_month ?y ?m"
    | (next_month) "day d = days_in_month ?y ?m" "?m < 12"
    | (next_year) "day d = days_in_month ?y ?m" "?m = 12"
    using m dd by linarith
  then show ?thesis
  proof cases
    case same_month
    then show ?thesis
      by (simp add: tomorrow_def toordinal_def ymd2ord_def)
  next
    case next_month
    then show ?thesis
      using m days_before_month_step [of ?m ?y]
      by (simp add: tomorrow_def toordinal_def ymd2ord_def)
  next
    case next_year
    have "days_before_month (?y + 1) 1 = 0"
      by (simp add: days_before_month_def DAYS_BEFORE_MONTH_def)
    then show ?thesis
      using next_year days_before_month_last [of ?y]
      by (simp add: tomorrow_def toordinal_def ymd2ord_def days_before_year_step
          split: if_splits)
  qed
qed

section \<open>The order of datetimes\<close>

text \<open>
  The comparison of tuples is irreflexive and asymmetric, and two tuples of which neither
  is before the other stay so through a third one.
\<close>

lemma tuple_lt_irrefl: "\<not> tuple_lt xs xs"
  by (induction xs) simp_all

lemma tuple_lt_asym: "tuple_lt xs ys \<Longrightarrow> \<not> tuple_lt ys xs"
  by (induction xs ys rule: tuple_lt.induct) auto

lemma tuple_lt_negtrans:
  "\<not> tuple_lt xs ys \<Longrightarrow> \<not> tuple_lt ys zs \<Longrightarrow> \<not> tuple_lt xs zs"
proof (induction xs ys arbitrary: zs rule: tuple_lt.induct)
  case 1
  then show ?case by simp
next
  case (2 y ys)
  then show ?case by simp
next
  case (3 x xs)
  then show ?case by (cases zs) auto
next
  case (4 x xs y ys)
  then show ?case by (cases zs) auto
qed

section \<open>Rental duration\<close>

lemma effective_end_eq: "datetime_or (actual_end_date r) (end_date r) = effective_end r"
  by (cases "actual_end_date r") (simp_all add: datetime_or_def effective_end_def)

lemma duration_days_eq:
  "duration_days r
   = toordinal (date_of (effective_end r)) - toordinal (date_of (start_date r)) + 1"
  by (simp add: duration_days_def Let_def date_sub_days_def effective_end_eq)

lemma check_date_of: "check_date_fields t \<Longrightarrow> check_date_fields (date_of t)"
  by (simp add: check_date_fields_def date_of_def)

lemma date_lt_date_of: "date_lt (date_of a) (date_of b) = date_lt a b"
  by (simp add: date_lt_def date_of_def)

text \<open>Two datetimes in order have their dates in order or on the same day.\<close>

lemma not_datetime_lt_dates:
  "\<not> datetime_lt b a \<Longrightarrow> date_lt a b \<or> date_of a = date_of b"
  by (auto simp: datetime_lt_def getstate_def date_lt_def date_of_def)

lemma datetime_lt_dates:
  "datetime_lt b a \<Longrightarrow> date_lt b a \<or> date_of a = date_of b"
  by (auto simp: datetime_lt_def getstate_def date_lt_def date_of_def)

lemma toordinal_date_of_mono:
  "check_date_fields a \<Longrightarrow> check_date_fields b \<Longrightarrow> date_lt a b
   \<Longrightarrow> toordinal (date_of a) < toordinal (date_of b)"
  by (intro toordinal_strict_mono check_date_of) (simp_all add: date_lt_date_of)

text \<open>
  C3: for a rental that does not start after its effective end (the actual end when there
  is one, the planned end otherwise), \<open>duration_days\<close> is the difference of the two
  calendar dates plus one. It is at least 1, it is 1 when both fall on the same day, it
  is the same for every rental with the same two calendar dates, whatever the times of
  day are, and it is one more for a rental that ends on the next day of the calendar.
\<close>

theorem duration_days_inclusive:
  assumes "check_date_fields (start_date r)" and "check_date_fields (effective_end r)"
    and "\<not> datetime_lt (effective_end r) (start_date r)"
  shows "duration_days r
           = toordinal (date_of (effective_end r)) - toordinal (date_of (start_date r)) + 1
         \<and> 1 \<le> duration_days r
         \<and> (date_of (effective_end r) = date_of (start_date r) \<longrightarrow> duration_days r = 1)
         \<and> (date_of (start_date r') = date_of (start_date r)
              \<and> date_of (effective_end r') = date_of (effective_end r)
              \<longrightarrow> duration_days r' = duration_days r)
         \<and> (date_of (start_date r') = date_of (start_date r)
              \<and> date_of (effective_end r') = tomorrow (date_of (effective_end r))
              \<longrightarrow> duration_days r' = duration_days r + 1)"
proof -
  have "toordinal (tomorrow (date_of (effective_end r)))
        = toordinal (date_of (effective_end r)) + 1"
    using assms(2) by (intro toordinal_tomorrow check_date_of)
  moreover
  have "date_lt (start_date r) (effective_end r)
        \<or> date_of (start_date r) = date_of (effective_end r)"
    using assms(3) by (rule not_datetime_lt_dates)
  then have "toordinal (date_of (start_date r)) \<le> toordinal (date_of (effective_end r))"
    using toordinal_date_of_mono [OF assms(1) assms(2)] by auto
  ultimately show ?thesis
    by (simp add: duration_days_eq)
qed

theorem duration_days_inclusive_witness:
  "check_date_fields (start_date rental_example)
   \<and> check_date_fields (effective_end rental_example)
   \<and> \<not> datetime_lt (effective_end rental_example) (start_date rental_example)
   \<and> date_of (start_date rental_example) = \<lparr>year = 2024, month = 1, day = 1\<rparr>
   \<and> date_of (effective_end rental_example) = \<lparr>year = 2024, month = 1, day = 3\<rparr>
   \<and> duration_days rental_example = 3
   \<and> duration_days (rental_example\<lparr>actual_end_date := Some (mk_datetime 2024 1 1 23 59)\<rparr>)
       = 1"
proof -
  let ?same = "rental_example\<lparr>actual_end_date := Some (mk_datetime 2024 1 1 23 59)\<rparr>"
  have dim: "days_in_month 2024 1 = 31"
    by (simp add: days_in_month_def DAYS_IN_MONTH_def)
  have e: "effective_end rental_example = mk_datetime 2024 1 3 18 0"
    "effective_end ?same = mk_datetime 2024 1 1 23 59"
    by (simp_all add: effective_end_def rental_example_def)
  have s: "start_date rental_example = mk_datetime 2024 1 1 9 30"
    "start_date ?same = mk_datetime 2024 1 1 9 30"
    by (simp_all add: rental_example_def)
  have c: "check_date_fields (mk_datetime 2024 1 1 9 30)"
    "check_date_fields (mk_datetime 2024 1 3 18 0)"
    "check_date_fields (mk_datetime 2024 1 1 23 59)"
    by (simp_all add: check_date_fields_def mk_datetime_def dim)
  have o: "\<not> datetime_lt (mk_datetime 2024 1 3 18 0) (mk_datetime 2024 1 1 9 30)"
    "\<not> datetime_lt (mk_datetime 2024 1 1 23 59) (mk_datetime 2024 1 1 9 30)"
    by (simp_all add: datetime_lt_def getstate_def mk_datetime_def)
  have d: "date_of (mk_datetime 2024 1 1 9 30) = \<lparr>year = 2024, month = 1, day = 1\<rparr>"
    "date_of (mk_datetime 2024 1 3 18 0) = \<lparr>year = 2024, month = 1, day = 3\<rparr>"
    "date_of (mk_datetime 2024 1 1 23 59) = \<lparr>year = 2024, month = 1, day = 1\<rparr>"
    by (simp_all add: date_of_def mk_datetime_def)
  have t: "toordinal \<lparr>year = 2024, month = 1, day = 3\<rparr>
           - toordinal \<lparr>year = 2024, month = 1, day = 1\<rparr> = 2"
    by (simp add: toordinal_def ymd2ord_def)
  show ?thesis
    using duration_days_inclusive [of rental_example rental_example]
      duration_days_inclusive [of ?same ?same]
    by (simp add: e s c o d t)
qed

text \<open>
  C4 (as the code has it): for a rental that starts after its effective end,
  \<open>duration_days\<close> is still the difference of the two calendar dates plus one. That
  number is at most 1, and it is zero or negative when the start falls on a later
  calendar day than the end.
\<close>

theorem duration_days_reversed:
  assumes "check_date_fields (start_date r)" and "check_date_fields (effective_end r)"
    and "datetime_lt (effective_end r) (start_date r)"
  shows "duration_days r
           = toordinal (date_of (effective_end r)) - toordinal (date_of (start_date r)) + 1
         \<and> duration_days r \<le> 1
         \<and> (date_lt (effective_end r) (start_date r) \<longrightarrow> duration_days r \<le> 0)"
proof -
  have "date_lt (effective_end r) (start_date r)
        \<or> date_of (start_date r) = date_of (effective_end r)"
    using assms(3) by (rule datetime_lt_dates)
  then have "toordinal (date_of (effective_end r)) \<le> toordinal (date_of (start_date r))"
    using toordinal_date_of_mono [OF assms(2) assms(1)] by auto
  moreover have "date_lt (effective_end r) (start_date r)
      \<Longrightarrow> toordinal (date_of (effective_end r)) < toordinal (date_of (start_date r))"
    using toordinal_date_of_mono [OF assms(2) assms(1)] by simp
  ultimately show ?thesis
    by (auto simp: duration_days_eq)
qed

theorem duration_days_reversed_witness:
  "check_date_fields (start_date rental_reversed)
   \<and> check_date_fields (effective_end rental_reversed)
   \<and> datetime_lt (effective_end rental_reversed) (start_date rental_reversed)
   \<and> date_lt (effective_end rental_reversed) (start_date rental_reversed)
   \<and> duration_days rental_reversed \<le> 0"
proof -
  have dim: "days_in_month 2024 1 = 31"
    by (simp add: days_in_month_def DAYS_IN_MONTH_def)
  have e: "effective_end rental_reversed = mk_datetime 2024 1 1 9 30"
    by (simp add: effective_end_def rental_reversed_def rental_example_def)
  have s: "start_date rental_reversed = mk_datetime 2024 1 3 18 0"
    by (simp add: rental_reversed_def)
  have c: "check_date_fields (mk_datetime 2024 1 1 9 30)"
    "check_date_fields (mk_datetime 2024 1 3 18 0)"
    by (simp_all add: check_date_fields_def mk_datetime_def dim)
  have o: "datetime_lt (mk_datetime 2024 1 1 9 30) (mk_datetime 2024 1 3 18 0)"
    "date_lt (mk_datetime 2024 1 1 9 30) (mk_datetime 2024 1 3 18 0)"
    by (simp_all add: datetime_lt_def date_lt_def getstate_def mk_datetime_def)
  show ?thesis
    using duration_days_reversed [of rental_reversed]
    by (simp add: e s c o)
qed

text \<open>
  C4 (as stated) fails: the rental from 2024-01-03 18:00 back to 2024-01-01 09:30 starts
  after it ends, and \<open>duration_days\<close> returns the negative number -1 for it.
\<close>

theorem duration_days_negative:
  "datetime_lt (effective_end rental_reversed) (start_date rental_reversed)
   \<and> duration_days rental_reversed = -1"
  by (simp add: duration_days_def datetime_or_def effective_end_def rental_reversed_def
      rental_example_def datetime_lt_def getstate_def mk_datetime_def date_of_def
      date_sub_days_def toordinal_def ymd2ord_def)

section \<open>Overdue rentals\<close>

text \<open>
  C5: a rental is overdue at the time \<open>now\<close> exactly when its status is \<open>active\<close> and
  its planned end is strictly before \<open>now\<close>. A rental whose planned end is \<open>now\<close> itself
  is not overdue, a completed rental is never overdue, the actual end plays no part, and
  the call leaves the rental as it was.
\<close>

theorem is_overdue_iff:
  "is_overdue r now = (status r = ''active'' \<and> datetime_lt (end_date r) now)
   \<and> \<not> is_overdue (r\<lparr>end_date := now\<rparr>) now
   \<and> (status r = ''completed'' \<longrightarrow> \<not> is_overdue r now)
   \<and> is_overdue (r\<lparr>actual_end_date := a\<rparr>) now = is_overdue r now
   \<and> snd (call_is_overdue r now) = r"
proof -
  have "\<not> datetime_lt now now"
    by (simp add: datetime_lt_def tuple_lt_irrefl)
  then show ?thesis
    by (simp add: is_overdue_def call_is_overdue_def)
qed

theorem is_overdue_iff_witness:
  "status (rental_example\<lparr>status := ''completed''\<rparr>) = ''completed''
   \<and> \<not> is_overdue (rental_example\<lparr>status := ''completed''\<rparr>) (mk_datetime 2024 1 4 18 0)
   \<and> is_overdue rental_example (mk_datetime 2024 1 4 18 0)"
  using is_overdue_iff [of "rental_example\<lparr>status := ''completed''\<rparr>" "mk_datetime 2024 1 4 18 0"]
    is_overdue_iff [of rental_example "mk_datetime 2024 1 4 18 0"]
  by (simp add: rental_example_def datetime_lt_def getstate_def mk_datetime_def)

section \<open>Repeated calls\<close>

text \<open>
  Reads and returns leave the receiver alone, and so does every body made of read-only
  steps. An assignment does not: setting the status of the example rental changes it.
\<close>

lemma read_only_ret: "read_only (ret v)"
  by (simp add: read_only_def ret_def)

lemma read_only_getattr: "read_only (getattr field)"
  by (simp add: read_only_def getattr_def)

lemma read_only_bnd:
  assumes "read_only m" and "\<And>v. read_only (f v)"
  shows "read_only (bnd m f)"
proof -
  have "snd (bnd m f self) = self" for self
  proof (cases "m self")
    case (Pair v self')
    then have "self' = self"
      using assms(1) by (metis read_only_def snd_conv)
    then show ?thesis
      using Pair assms(2) [of v] by (simp add: bnd_def read_only_def)
  qed
  then show ?thesis
    by (simp add: read_only_def)
qed

lemma read_only_or_decimal: "read_only mx \<Longrightarrow> read_only my \<Longrightarrow> read_only (or_decimal mx my)"
  unfolding or_decimal_def by (rule read_only_bnd) (simp_all add: read_only_ret)

lemma read_only_or_datetime: "read_only mx \<Longrightarrow> read_only my \<Longrightarrow> read_only (or_datetime mx my)"
  unfolding or_datetime_def
  by (rule read_only_bnd) (simp_all add: read_only_ret split: option.splits)

lemma setattr_not_read_only:
  "\<not> read_only (setattr status_update ''completed'' :: (Rental, unit) body)"
proof
  assume "read_only (setattr status_update ''completed'' :: (Rental, unit) body)"
  then have "snd (setattr status_update ''completed'' rental_example) = rental_example"
    unfolding read_only_def by blast
  then have "status (rental_example\<lparr>status := ''completed''\<rparr>) = status rental_example"
    by (simp add: setattr_def)
  then show False
    by (simp add: rental_example_def)
qed

lemma read_only_duration_days_body: "read_only duration_days_body"
  unfolding duration_days_body_def
  by (intro read_only_bnd read_only_or_datetime read_only_getattr read_only_ret)

lemma read_only_get_price_for_duration_body: "read_only (get_price_for_duration_body d)"
  unfolding get_price_for_duration_body_def
  by (simp add: read_only_or_decimal read_only_getattr)

lemma fst_duration_days_body: "fst (duration_days_body r) = duration_days r"
  by (cases "actual_end_date r")
    (simp_all add: duration_days_body_def duration_days_def or_datetime_def datetime_or_def
      bnd_def getattr_def ret_def Let_def)

lemma fst_get_price_for_duration_body:
  "fst (get_price_for_duration_body d t) = get_price_for_duration t d"
  by (simp add: get_price_for_duration_body_def get_price_for_duration_def or_decimal_def
      decimal_or_def bnd_def getattr_def ret_def)

lemma twice_read_only:
  assumes "read_only m"
  shows "twice m self = ((fst (m self), fst (m self)), self)"
proof -
  obtain v where v: "m self = (v, self)"
    using assms by (metis prod.collapse read_only_def)
  show ?thesis
    by (simp add: twice_def bnd_def ret_def v)
qed

text \<open>
  C7: the bodies of \<open>duration_days\<close> and \<open>get_price_for_duration\<close> are read-only: the
  receiver after a call has every field as before it. Each call returns the value of the
  resolver on the receiver, and two calls in a row with the same argument return that
  value both times and leave the receiver as it was before the first.
\<close>

theorem resolver_methods_pure:
  "read_only duration_days_body \<and> read_only (get_price_for_duration_body d)
   \<and> duration_days_body r = (duration_days r, r)
   \<and> get_price_for_duration_body d t = (get_price_for_duration t d, t)
   \<and> twice duration_days_body r = ((duration_days r, duration_days r), r)
   \<and> twice (get_price_for_duration_body d) t
       = ((get_price_for_duration t d, get_price_for_duration t d), t)"
proof -
  have a: "duration_days_body r = (duration_days r, r)"
    using read_only_duration_days_body fst_duration_days_body [of r]
    by (metis prod.collapse read_only_def)
  have b: "get_price_for_duration_body d t = (get_price_for_duration t d, t)"
    using read_only_get_price_for_duration_body [of d] fst_get_price_for_duration_body [of d t]
    by (metis prod.collapse read_only_def)
  show ?thesis
    using a b twice_read_only [OF read_only_duration_days_body, of r]
      twice_read_only [OF read_only_get_price_for_duration_body, of d t]
    by (simp add: read_only_duration_days_body read_only_get_price_for_duration_body)
qed

theorem resolver_methods_pure_witness:
  "duration_days_body rental_example = (3, rental_example)
   \<and> twice duration_days_body rental_example = ((3, 3), rental_example)
   \<and> get_price_for_duration_body 5 tier_example = (450, tier_example)
   \<and> twice (get_price_for_duration_body 5) tier_example = ((450, 450), tier_example)"
proof -
  have p: "get_price_for_duration tier_example 5 = 450"
    by (simp add: get_price_for_duration_def decimal_or_def decimal_bool_def
        tier_example_def)
  have n: "duration_days rental_example = 3"
    by (simp add: duration_days_def datetime_or_def rental_example_def mk_datetime_def
        date_of_def date_sub_days_def toordinal_def ymd2ord_def)
  show ?thesis
    using resolver_methods_pure [where d = 5 and r = rental_example and t = tier_example]
    by (simp add: p n)
qed

section \<open>Rate resolution\<close>

text \<open>
  C1 (as the code has it): for every duration from 1 to 25 days the resolved rate is the
  override of the duration's band when that override is set and is not zero, and the
  base price when the override is null or zero.
\<close>

theorem get_price_for_duration_band:
  "1 \<le> d \<Longrightarrow> d \<le> 25 \<Longrightarrow>
   get_price_for_duration t d =
     (case band_override t d of
        None \<Rightarrow> base_price t
      | Some p \<Rightarrow> if p = 0 then base_price t else p)"
  by (auto simp: get_price_for_duration_def band_override_def decimal_or_def
      decimal_bool_def split: option.splits)

theorem get_price_for_duration_band_witness:
  "(1::int) \<le> 5 \<and> (5::int) \<le> 25 \<and> band_override tier_example 5 = Some 450
   \<and> get_price_for_duration tier_example 5 = 450"
  using get_price_for_duration_band [of 5 tier_example]
  by (simp add: band_override_def tier_example_def)

text \<open>
  C1 (as stated) fails: an override of zero is not returned. With a 1-3 day override of 0
  and a base price of 500, a two-day rental resolves to 500.
\<close>

theorem get_price_for_duration_zero_override:
  "band_override tier_example 2 = Some 0 \<and> get_price_for_duration tier_example 2 = 500
   \<and> get_price_for_duration tier_example 2 \<noteq> 0"
  by (simp add: band_override_def get_price_for_duration_def decimal_or_def
      decimal_bool_def tier_example_def)

text \<open>
  C2: for every duration above 25 days the resolved rate is the base price, whatever the
  band, long-term, monthly and seasonal overrides are.
\<close>

theorem get_price_for_duration_long:
  "25 < d \<Longrightarrow> get_price_for_duration t d = base_price t"
  by (simp add: get_price_for_duration_def)

theorem get_price_for_duration_long_witness:
  "(25::int) < 200 \<and> one_year_rent tier_example = Some 100
   \<and> get_price_for_duration tier_example 200 = 500"
  using get_price_for_duration_long [of 200 tier_example]
  by (simp add: tier_example_def)

text \<open>
  C8: the resolver is defined on every integer: a duration of at most 3 days, zero and
  negative durations included, resolves through the 1-3 day band, and every result is
  the base price or one of the four band overrides.
\<close>

theorem get_price_for_duration_total:
  "(d \<le> 3 \<longrightarrow> get_price_for_duration t d = decimal_or (days_1_3 t) (base_price t))
   \<and> (Some (get_price_for_duration t d)
        \<in> {Some (base_price t), days_1_3 t, days_4_7 t, days_7_14 t, days_15_25 t})"
  by (auto simp: get_price_for_duration_def decimal_or_def decimal_bool_def
      split: option.splits)

theorem get_price_for_duration_total_witness:
  "(-5::int) \<le> 3 \<and> get_price_for_duration tier_example (-5) = 500
   \<and> get_price_for_duration (tier_example\<lparr>days_1_3 := Some 350\<rparr>) 0 = 350"
  using get_price_for_duration_total [of "-5" tier_example]
    get_price_for_duration_total [of 0 "tier_example\<lparr>days_1_3 := Some 350\<rparr>"]
  by (simp add: decimal_or_def decimal_bool_def tier_example_def)

section \<open>Recent messages\<close>

text \<open>
  \<open>str_split\<close> cuts a string at the separator and nowhere else: joining the pieces with
  the separator gives the string back, no piece contains the separator, and there is
  one piece more than there are separators.
\<close>

lemma str_split_nonempty: "str_split sep s \<noteq> []"
  by (induction s) simp_all

lemma str_join_split: "str_join sep (str_split sep s) = s"
proof (induction s)
  case Nil
  show ?case by simp
next
  case (Cons c cs)
  obtain w ws where w: "str_split sep cs = w # ws"
    using str_split_nonempty [of sep cs] by (cases "str_split sep cs") auto
  show ?case
  proof (cases "c = sep")
    case True
    then show ?thesis using Cons w by simp
  next
    case False
    then show ?thesis using Cons w by (cases ws) simp_all
  qed
qed

lemma str_split_no_sep: "l \<in> set (str_split sep s) \<Longrightarrow> sep \<notin> set l"
proof (induction s arbitrary: l)
  case Nil
  then show ?case by simp
next
  case (Cons c cs)
  obtain w ws where w: "str_split sep cs = w # ws"
    using str_split_nonempty [of sep cs] by (cases "str_split sep cs") auto
  show ?case
    using Cons w by (auto split: if_splits)
qed

lemma length_str_split: "length (str_split sep s) = Suc (count_list s sep)"
proof (induction s)
  case Nil
  show ?case by simp
next
  case (Cons c cs)
  obtain w ws where w: "str_split sep cs = w # ws"
    using str_split_nonempty [of sep cs] by (cases "str_split sep cs") auto
  show ?case using Cons w by auto
qed

lemma slice_from_last:
  "1 \<le> limit \<Longrightarrow>
   slice_from xs (- limit) = drop (length xs - min (nat limit) (length xs)) xs"
  by (auto simp: slice_from_def Let_def min_def max_def nat_diff_distrib'
      intro: arg_cong [where f = "\<lambda>k. drop k xs"])

text \<open>
  C10 (as the code has it): for a limit of at least 1, \<open>get_recent_messages\<close> returns the
  empty list when the chat history is empty, and otherwise the last \<open>min limit n\<close> of the
  \<open>n\<close> lines of the chat history, in their order. It returns at most \<open>limit\<close> messages and
  leaves the receiver as it was.
\<close>

theorem get_recent_messages_last:
  assumes "1 \<le> limit"
  shows "(chat_history c = [] \<longrightarrow> get_recent_messages c limit = [])
         \<and> (chat_history c \<noteq> [] \<longrightarrow>
              (let ms = str_split newline (chat_history c);
                   k = min (nat limit) (length ms)
               in get_recent_messages c limit = drop (length ms - k) ms
                  \<and> length (get_recent_messages c limit) = k
                  \<and> str_join newline ms = chat_history c))
         \<and> int (length (get_recent_messages c limit)) \<le> limit
         \<and> snd (call_get_recent_messages c limit) = c"
proof -
  let ?ms = "str_split newline (chat_history c)"
  have r: "chat_history c \<noteq> [] \<Longrightarrow>
           get_recent_messages c limit = drop (length ?ms - min (nat limit) (length ?ms)) ?ms"
    using assms by (simp add: get_recent_messages_def Let_def str_split_nonempty slice_from_last)
  have e: "chat_history c = [] \<Longrightarrow> get_recent_messages c limit = []"
    by (simp add: get_recent_messages_def)
  have l: "int (length (get_recent_messages c limit)) \<le> limit"
    using assms r e by (cases "chat_history c = []") auto
  show ?thesis
    using r e l by (auto simp: Let_def str_join_split call_get_recent_messages_def)
qed

theorem get_recent_messages_last_witness:
  "(1::int) \<le> 1 \<and> chat_history comm_example \<noteq> []
   \<and> str_split newline (chat_history comm_example) = [''a'', ''b'']
   \<and> get_recent_messages comm_example 1 = [''b'']"
proof -
  have s: "str_split newline (chat_history comm_example) = [''a'', ''b'']"
    by (simp add: comm_example_def newline_def)
  have n: "chat_history comm_example \<noteq> []"
    by (simp add: comm_example_def)
  show ?thesis
    using get_recent_messages_last [of 1 comm_example] n
    by (simp add: s)
qed

text \<open>
  C10 (as stated) fails at the limit 0: the chat history of two lines gives both lines,
  not the last \<open>min 0 2 = 0\<close> of them.
\<close>

theorem get_recent_messages_limit_zero:
  "chat_history comm_example \<noteq> []
   \<and> str_split newline (chat_history comm_example) = [''a'', ''b'']
   \<and> get_recent_messages comm_example 0 = [''a'', ''b'']
   \<and> int (length (get_recent_messages comm_example 0))
       \<noteq> min 0 (int (length (str_split newline (chat_history comm_example))))"
  by (simp add: get_recent_messages_def slice_from_def comm_example_def newline_def)

section \<open>The order of the prompt templates\<close>

text \<open>
  \<open>at_least_as_recent\<close> is reflexive, transitive and total, so the insertion sort of the
  query set puts a most recent row first.
\<close>

lemma recent_refl: "at_least_as_recent a a"
  by (simp add: at_least_as_recent_def datetime_lt_def tuple_lt_irrefl)

lemma recent_trans:
  "at_least_as_recent a b \<Longrightarrow> at_least_as_recent b c \<Longrightarrow> at_least_as_recent a c"
  unfolding at_least_as_recent_def datetime_lt_def by (rule tuple_lt_negtrans)

lemma recent_total: "\<not> at_least_as_recent a b \<Longrightarrow> at_least_as_recent b a"
  unfolding at_least_as_recent_def datetime_lt_def by (auto dest: tuple_lt_asym)

lemma set_insert_desc: "set (insert_desc r xs) = insert r (set xs)"
  by (induction xs) auto

lemma set_order_by: "set (order_by_updated_desc db) = set db"
  by (induction db) (simp_all add: order_by_updated_desc_def set_insert_desc)

lemma sorted_insert_desc:
  "sorted_wrt at_least_as_recent xs \<Longrightarrow> sorted_wrt at_least_as_recent (insert_desc r xs)"
proof (induction xs)
  case Nil
  show ?case by simp
next
  case (Cons x xs)
  show ?case
  proof (cases "datetime_lt (updated_at r) (updated_at x)")
    case True
    then have "at_least_as_recent x r"
      using recent_total [of r x] by (simp add: at_least_as_recent_def)
    then show ?thesis
      using True Cons by (auto simp: set_insert_desc)
  next
    case False
    then have rx: "at_least_as_recent r x"
      by (simp add: at_least_as_recent_def)
    then have "\<forall>y\<in>set xs. at_least_as_recent r y"
      using Cons.prems by (auto intro: recent_trans)
    then show ?thesis
      using False rx Cons.prems by simp
  qed
qed

lemma sorted_order_by: "sorted_wrt at_least_as_recent (order_by_updated_desc db)"
  by (induction db) (simp_all add: order_by_updated_desc_def sorted_insert_desc)

lemma first_None: "first qs = None \<longleftrightarrow> qs = []"
proof -
  have "order_by_updated_desc qs = [] \<longleftrightarrow> qs = []"
    using set_order_by [of qs] by (metis set_empty)
  then show ?thesis
    by (cases "order_by_updated_desc qs") (auto simp: first_def)
qed

lemma first_Some:
  assumes "first qs = Some p"
  shows "p \<in> set qs \<and> (\<forall>r\<in>set qs. at_least_as_recent p r)"
proof -
  obtain rest where o: "order_by_updated_desc qs = p # rest"
    using assms by (auto simp: first_def split: list.splits)
  have "sorted_wrt at_least_as_recent (p # rest)"
    using sorted_order_by [of qs] o by simp
  then have "\<forall>r\<in>set (p # rest). at_least_as_recent p r"
    by (auto simp: recent_refl)
  moreover have "set qs = set (p # rest)"
    using set_order_by [of qs] o by simp
  ultimately show ?thesis
    by simp
qed

lemma get_active_prompt_None: "get_active_prompt db = None \<longleftrightarrow> (\<forall>r\<in>set db. \<not> is_active r)"
  by (simp add: get_active_prompt_def first_None filter_empty_conv)

lemma get_active_prompt_Some:
  "get_active_prompt db = Some p \<Longrightarrow>
   p \<in> set db \<and> is_active p \<and> (\<forall>r\<in>set db. is_active r \<longrightarrow> at_least_as_recent p r)"
  using first_Some [of "filter is_active db" p] by (simp add: get_active_prompt_def)

lemma fold_max_pk:
  "m \<le> fold (\<lambda>r m. case pk r of None \<Rightarrow> m | Some p \<Rightarrow> max p m) db m
   \<and> (\<forall>r\<in>set db. \<forall>p. pk r = Some p \<longrightarrow>
         p \<le> fold (\<lambda>r m. case pk r of None \<Rightarrow> m | Some p \<Rightarrow> max p m) db m)"
proof (induction db arbitrary: m)
  case Nil
  show ?case by simp
next
  case (Cons x xs)
  show ?case
  proof (cases "pk x")
    case None
    then show ?thesis using Cons [of m] by auto
  next
    case (Some q)
    then show ?thesis using Cons [of "max q m"] by (auto simp: max_def split: if_splits)
  qed
qed

lemma fresh_pk_notin: "Some (fresh_pk db) \<notin> set (map pk db)"
proof
  assume "Some (fresh_pk db) \<in> set (map pk db)"
  then obtain r where "r \<in> set db" "pk r = Some (fresh_pk db)" by auto
  then have "fresh_pk db \<le> fold (\<lambda>r m. case pk r of None \<Rightarrow> m | Some p \<Rightarrow> max p m) db 0"
    using fold_max_pk [of 0 db] by blast
  then show False by (simp add: fresh_pk_def)
qed

lemma qs_update_no_active:
  "\<forall>r\<in>set db. \<not> is_active r \<Longrightarrow> qs_update cond (\<lambda>r. r\<lparr>is_active := False\<rparr>) db = db"
  by (induction db) (simp_all add: qs_update_def)

lemma count_pk_le_1: "distinct (map pk db) \<Longrightarrow> length (filter (\<lambda>r. pk r = k) db) \<le> 1"
proof (induction db)
  case Nil
  show ?case by simp
next
  case (Cons x xs)
  have "pk x \<notin> pk ` set xs"
    using Cons.prems by simp
  then have "\<forall>r\<in>set xs. pk r \<noteq> pk x"
    by (metis imageI)
  then have "pk x = k \<Longrightarrow> filter (\<lambda>r. pk r = k) xs = []"
    by (simp add: filter_empty_conv)
  then show ?case using Cons by auto
qed

section \<open>Saving a prompt template\<close>

text \<open>
  \<open>Model.save\<close> either replaces the one row with the key of the instance or appends the
  instance under a key that no row has.
\<close>

lemma length_filter_map_le:
  "(\<And>r. r \<in> set xs \<Longrightarrow> P (g r) \<Longrightarrow> Q r) \<Longrightarrow>
   length (filter P (map g xs)) \<le> length (filter Q xs)"
  by (induction xs) auto

lemma Model_save_update:
  assumes "pk self \<noteq> None" and "pk self \<in> set (map pk db)"
  shows "Model_save now self db
         = (self\<lparr>updated_at := now\<rparr>,
            map (\<lambda>r. if pk r = pk self then self\<lparr>updated_at := now\<rparr> else r) db)"
  using assms by (simp add: Model_save_def Let_def)

lemma Model_save_insert:
  assumes "pk self = None \<or> pk self \<notin> set (map pk db)"
  shows "Model_save now self db
         = (self\<lparr>updated_at := now,
                 pk := (if pk self = None then Some (fresh_pk db) else pk self),
                 created_at := now\<rparr>,
            db @ [self\<lparr>updated_at := now,
                       pk := (if pk self = None then Some (fresh_pk db) else pk self),
                       created_at := now\<rparr>])"
  using assms by (auto simp: Model_save_def Let_def)

lemma map_pk_qs_update_deactivate:
  "map pk (qs_update cond (\<lambda>r. r\<lparr>is_active := False\<rparr>) db) = map pk db"
  by (induction db) (simp_all add: qs_update_def)

lemma Model_save_update_props:
  assumes ok: "table_ok db" and k: "pk self \<noteq> None" "pk self \<in> set (map pk db)"
    and s: "Model_save now self db = (self', db')"
  shows "map pk db' = map pk db" and "pk self' = pk self" and "is_active self' = is_active self"
    and "self' \<in> set db'"
    and "filter (\<lambda>r. pk r \<noteq> pk self') db' = filter (\<lambda>r. pk r \<noteq> pk self') db"
    and "length (filter is_active db')
         \<le> length (filter (\<lambda>r. is_active r \<and> pk r \<noteq> pk self) db) + (if is_active self then 1 else 0)"
proof -
  let ?u = "self\<lparr>updated_at := now\<rparr>"
  have e: "self' = ?u" "db' = map (\<lambda>r. if pk r = pk self then ?u else r) db"
    using s Model_save_update [OF k, of now] by auto
  show "map pk db' = map pk db"
    by (simp add: e comp_def cong: if_cong)
  show "pk self' = pk self" "is_active self' = is_active self"
    by (simp_all add: e)
  show "self' \<in> set db'"
    using k(2) by (auto simp: e image_iff)
  show "filter (\<lambda>r. pk r \<noteq> pk self') db' = filter (\<lambda>r. pk r \<noteq> pk self') db"
    unfolding e by (induction db) auto
  have c: "length (filter (\<lambda>r. pk r = pk self) db) \<le> 1"
    using ok by (intro count_pk_le_1) (simp add: table_ok_def)
  have "length (filter is_active db')
        = length (filter (\<lambda>r. is_active r \<and> pk r \<noteq> pk self) db)
          + (if is_active self then length (filter (\<lambda>r. pk r = pk self) db) else 0)"
    unfolding e by (induction db) auto
  then show "length (filter is_active db')
         \<le> length (filter (\<lambda>r. is_active r \<and> pk r \<noteq> pk self) db) + (if is_active self then 1 else 0)"
    using c by simp
qed

lemma Model_save_insert_props:
  assumes ok: "table_ok db" and k: "pk self = None \<or> pk self \<notin> set (map pk db)"
    and s: "Model_save now self db = (self', db')"
  shows "db' = db @ [self']" and "pk self' \<noteq> None" and "pk self' \<notin> set (map pk db)"
    and "is_active self' = is_active self"
    and "pk self = None \<or> pk self' = pk self"
proof -
  let ?i = "self\<lparr>updated_at := now,
                 pk := (if pk self = None then Some (fresh_pk db) else pk self),
                 created_at := now\<rparr>"
  have e: "self' = ?i" "db' = db @ [?i]"
    using s Model_save_insert [OF k, of now] by auto
  show "db' = db @ [self']" by (simp add: e)
  show "pk self' \<noteq> None" by (simp add: e)
  show "pk self' \<notin> set (map pk db)"
    using k fresh_pk_notin [of db] by (auto simp: e)
  show "is_active self' = is_active self" by (simp add: e)
  show "pk self = None \<or> pk self' = pk self" by (simp add: e)
qed

lemma filter_others_qs_update:
  "filter (\<lambda>r. pk r \<noteq> k) (qs_update (\<lambda>r. pk r \<noteq> k) (\<lambda>r. r\<lparr>is_active := False\<rparr>) db)
   = map (\<lambda>r. r\<lparr>is_active := False\<rparr>) (filter (\<lambda>r. pk r \<noteq> k) db)"
  by (induction db) (simp_all add: qs_update_def)

lemma filter_active_others_qs_update:
  "filter (\<lambda>r. is_active r \<and> pk r \<noteq> k)
     (qs_update (\<lambda>r. pk r \<noteq> k) (\<lambda>r. r\<lparr>is_active := False\<rparr>) db) = []"
  by (induction db) (simp_all add: qs_update_def)

lemma qs_update_all_others:
  "\<forall>r\<in>set db. pk r \<noteq> k \<Longrightarrow>
   qs_update (\<lambda>r. pk r \<noteq> k) (\<lambda>r. r\<lparr>is_active := False\<rparr>) db
   = map (\<lambda>r. r\<lparr>is_active := False\<rparr>) db"
  by (induction db) (simp_all add: qs_update_def)

lemma filter_all_others: "\<forall>r\<in>set db. pk r \<noteq> k \<Longrightarrow> filter (\<lambda>r. pk r \<noteq> k) db = db"
  by (induction db) simp_all

lemma notin_pks: "k \<notin> set (map pk db) \<Longrightarrow> \<forall>r\<in>set db. pk r \<noteq> k"
  by auto

text \<open>
  C6: when the calls of \<open>save\<close> run one after the other, each keeps the invariant that
  at most one row of the table is active. The saved instance is in the table afterwards,
  the primary keys stay distinct, saving an active instance leaves every other row as it
  was except for \<open>is_active\<close>, which is \<open>False\<close> on all of them, and saving an inactive
  instance leaves every other row as it was.
\<close>

theorem save_at_most_one_active:
  assumes ok: "table_ok db" and one: "at_most_one_active db"
    and s: "save now self db = (self', db')"
  shows "table_ok db' \<and> at_most_one_active db'
         \<and> self' \<in> set db' \<and> is_active self' = is_active self
         \<and> (is_active self \<longrightarrow>
              filter (\<lambda>r. pk r \<noteq> pk self') db'
                = map (\<lambda>r. r\<lparr>is_active := False\<rparr>) (filter (\<lambda>r. pk r \<noteq> pk self') db)
              \<and> (\<forall>r\<in>set db'. pk r \<noteq> pk self' \<longrightarrow> \<not> is_active r))
         \<and> (\<not> is_active self \<longrightarrow>
              filter (\<lambda>r. pk r \<noteq> pk self') db' = filter (\<lambda>r. pk r \<noteq> pk self') db)"
proof -
  define db1 where
    "db1 = (if is_active self
            then qs_update (\<lambda>r. pk r \<noteq> pk self) (\<lambda>r. r\<lparr>is_active := False\<rparr>) db
            else db)"
  have m: "Model_save now self db1 = (self', db')"
    using s by (simp add: save_def db1_def)
  have pks: "map pk db1 = map pk db"
    by (simp add: db1_def map_pk_qs_update_deactivate)
  have ok1: "table_ok db1"
    using ok by (simp add: table_ok_def pks)
  have others: "filter (\<lambda>r. pk r \<noteq> pk self') db'
                = (if is_active self
                   then map (\<lambda>r. r\<lparr>is_active := False\<rparr>) (filter (\<lambda>r. pk r \<noteq> pk self') db)
                   else filter (\<lambda>r. pk r \<noteq> pk self') db)
              \<and> table_ok db' \<and> at_most_one_active db'
              \<and> self' \<in> set db' \<and> is_active self' = is_active self"
  proof (cases "pk self \<noteq> None \<and> pk self \<in> set (map pk db)")
    case True
    then have k: "pk self \<noteq> None" "pk self \<in> set (map pk db1)"
      by (simp_all add: pks)
    note p = Model_save_update_props [OF ok1 k m]
    have t: "table_ok db'"
      using ok by (simp add: table_ok_def p(1) pks)
    have f: "filter (\<lambda>r. pk r \<noteq> pk self') db'
             = (if is_active self
                then map (\<lambda>r. r\<lparr>is_active := False\<rparr>) (filter (\<lambda>r. pk r \<noteq> pk self') db)
                else filter (\<lambda>r. pk r \<noteq> pk self') db)"
    proof -
      have "filter (\<lambda>r. pk r \<noteq> pk self) db' = filter (\<lambda>r. pk r \<noteq> pk self) db1"
        using p(5) by (simp add: p(2))
      then show ?thesis
        by (simp add: p(2) db1_def filter_others_qs_update)
    qed
    have "length (filter (\<lambda>r. is_active r \<and> pk r \<noteq> pk self) db1)
          + (if is_active self then 1 else 0) \<le> 1"
    proof (cases "is_active self")
      case True
      then show ?thesis by (simp add: db1_def filter_active_others_qs_update)
    next
      case False
      have "length (filter (\<lambda>r. is_active r \<and> pk r \<noteq> pk self) db)
            \<le> length (filter is_active db)"
        using length_filter_map_le [of db "\<lambda>r. is_active r \<and> pk r \<noteq> pk self" "\<lambda>r. r" is_active]
        by simp
      then show ?thesis using False one by (simp add: db1_def at_most_one_active_def)
    qed
    then have "at_most_one_active db'"
      using p(6) by (simp add: at_most_one_active_def)
    then show ?thesis
      using t f p(3) p(4) by simp
  next
    case False
    then have k: "pk self = None \<or> pk self \<notin> set (map pk db1)"
      by (auto simp: pks)
    note p = Model_save_insert_props [OF ok1 k m]
    have new: "\<forall>r\<in>set db. pk r \<noteq> pk self'" "\<forall>r\<in>set db1. pk r \<noteq> pk self'"
    proof -
      show "\<forall>r\<in>set db1. pk r \<noteq> pk self'"
        using p(3) by (rule notin_pks)
      have "pk self' \<notin> set (map pk db)"
        using p(3) unfolding pks .
      then show "\<forall>r\<in>set db. pk r \<noteq> pk self'"
        by (rule notin_pks)
    qed
    have "pk self \<notin> set (map pk db)"
      using False ok by (cases "pk self") (simp_all add: table_ok_def)
    then have old: "\<forall>r\<in>set db. pk r \<noteq> pk self"
      by (rule notin_pks)
    have t: "table_ok db'"
      using ok p(2) p(3) by (auto simp: table_ok_def p(1) pks)
    have d: "is_active self \<Longrightarrow> db1 = map (\<lambda>r. r\<lparr>is_active := False\<rparr>) db"
      using old by (simp add: db1_def qs_update_all_others)
    have f: "filter (\<lambda>r. pk r \<noteq> pk self') db'
             = (if is_active self
                then map (\<lambda>r. r\<lparr>is_active := False\<rparr>) (filter (\<lambda>r. pk r \<noteq> pk self') db)
                else filter (\<lambda>r. pk r \<noteq> pk self') db)"
    proof -
      have "filter (\<lambda>r. pk r \<noteq> pk self') db' = db1"
        by (simp add: p(1) filter_all_others [OF new(2)])
      moreover have "db1 = (if is_active self then map (\<lambda>r. r\<lparr>is_active := False\<rparr>) db else db)"
        using d by (simp add: db1_def)
      ultimately show ?thesis
        by (simp add: filter_all_others [OF new(1)])
    qed
    have "length (filter is_active db1) + (if is_active self then 1 else 0) \<le> 1"
    proof (cases "is_active self")
      case True
      then show ?thesis using d by (simp add: filter_empty_conv)
    next
      case False
      then show ?thesis using one by (simp add: db1_def at_most_one_active_def)
    qed
    then have "at_most_one_active db'"
      by (auto simp: at_most_one_active_def p(1) p(4) split: if_splits)
    then show ?thesis
      using t f p(4) by (simp add: p(1))
  qed
  have "is_active self \<Longrightarrow> \<forall>r\<in>set db'. pk r \<noteq> pk self' \<longrightarrow> \<not> is_active r"
  proof (intro ballI impI)
    fix r
    assume a: "is_active self" and r: "r \<in> set db'" "pk r \<noteq> pk self'"
    then have "r \<in> set (filter (\<lambda>r. pk r \<noteq> pk self') db')" by simp
    then have "r \<in> set (map (\<lambda>r. r\<lparr>is_active := False\<rparr>) (filter (\<lambda>r. pk r \<noteq> pk self') db))"
      using others a by simp
    then show "\<not> is_active r" by auto
  qed
  then show ?thesis
    using others by simp
qed

theorem save_at_most_one_active_witness:
  "table_ok [template_a, template_b] \<and> at_most_one_active [template_a, template_b]
   \<and> is_active (template_a\<lparr>is_active := True\<rparr>)
   \<and> map is_active (snd (save (mk_datetime 2024 2 1 0 0) (template_a\<lparr>is_active := True\<rparr>)
                            [template_a, template_b])) = [True, False]
   \<and> at_most_one_active (snd (save (mk_datetime 2024 2 1 0 0)
                                 (template_a\<lparr>is_active := True\<rparr>) [template_a, template_b]))"
proof -
  let ?now = "mk_datetime 2024 2 1 0 0"
  let ?self = "template_a\<lparr>is_active := True\<rparr>"
  let ?db = "[template_a, template_b]"
  have ok: "table_ok ?db"
    by (simp add: table_ok_def template_a_def template_b_def)
  have one: "at_most_one_active ?db"
    by (simp add: at_most_one_active_def template_a_def template_b_def)
  have s: "save ?now ?self ?db = (fst (save ?now ?self ?db), snd (save ?now ?self ?db))"
    by simp
  have v: "map is_active (snd (save ?now ?self ?db)) = [True, False]"
    by (simp add: save_def Model_save_def qs_update_def Let_def template_a_def template_b_def)
  show ?thesis
    using save_at_most_one_active [OF ok one s] ok one v by simp
qed

text \<open>
  C9: \<open>get_default_prompt\<close> returns an active template. When the table has an active
  row, it returns the first one of the query (an active row that no other active row was
  updated after) and the table is unchanged. When the table has none, the table gains
  exactly one row, the returned one: active, with a fresh key and with the name, the
  description and the system prompt of the standard consultant prompt.
\<close>

theorem get_default_prompt_active:
  assumes "get_default_prompt now db = (p, db')"
  shows "is_active p
         \<and> ((\<exists>r\<in>set db. is_active r) \<longrightarrow>
              db' = db \<and> p \<in> set db \<and> get_active_prompt db = Some p
              \<and> (\<forall>r\<in>set db. is_active r \<longrightarrow> at_least_as_recent p r))
         \<and> ((\<forall>r\<in>set db. \<not> is_active r) \<longrightarrow>
              db' = db @ [p] \<and> pk p = Some (fresh_pk db) \<and> pk p \<notin> set (map pk db)
              \<and> name p = DEFAULT_PROMPT_NAME \<and> description p = DEFAULT_PROMPT_DESCRIPTION
              \<and> system_prompt p = DEFAULT_SYSTEM_PROMPT
              \<and> created_at p = now \<and> updated_at p = now)"
proof (cases "get_active_prompt db")
  case None
  then have n: "\<forall>r\<in>set db. \<not> is_active r"
    by (simp add: get_active_prompt_None)
  let ?new = "\<lparr>pk = None, name = DEFAULT_PROMPT_NAME, description = DEFAULT_PROMPT_DESCRIPTION,
               system_prompt = DEFAULT_SYSTEM_PROMPT, is_active = True, created_at = now,
               updated_at = now\<rparr>"
  have "save now ?new db = Model_save now ?new db"
    using n by (simp add: save_def qs_update_no_active)
  then have "get_default_prompt now db = Model_save now ?new db"
    using None by (simp add: get_default_prompt_def objects_create_def)
  then have "(p, db') = Model_save now ?new db"
    using assms by simp
  then have "p = ?new\<lparr>pk := Some (fresh_pk db)\<rparr> \<and> db' = db @ [p]"
    by (simp add: Model_save_def Let_def)
  then show ?thesis
    using n fresh_pk_notin [of db] by simp
next
  case (Some a)
  then have "p = a" "db' = db"
    using assms by (simp_all add: get_default_prompt_def)
  then show ?thesis
    using Some get_active_prompt_Some [of db a] by auto
qed

theorem get_default_prompt_active_witness:
  "is_active template_b
   \<and> get_default_prompt (mk_datetime 2024 2 1 0 0) [template_a, template_b]
       = (template_b, [template_a, template_b])
   \<and> \<not> is_active template_a
   \<and> length (snd (get_default_prompt (mk_datetime 2024 2 1 0 0) [template_a])) = 2
   \<and> is_active (fst (get_default_prompt (mk_datetime 2024 2 1 0 0) [template_a]))
   \<and> pk (fst (get_default_prompt (mk_datetime 2024 2 1 0 0) [template_a])) = Some 2"
proof -
  let ?now = "mk_datetime 2024 2 1 0 0"
  have a: "get_default_prompt ?now [template_a, template_b]
           = (template_b, [template_a, template_b])"
    by (simp add: get_default_prompt_def get_active_prompt_def first_def
        order_by_updated_desc_def template_a_def template_b_def)
  have n: "\<forall>r\<in>set [template_a]. \<not> is_active r"
    by (simp add: template_a_def)
  have f: "fresh_pk [template_a] = 2"
    by (simp add: fresh_pk_def template_a_def)
  have c: "get_default_prompt ?now [template_a]
           = (fst (get_default_prompt ?now [template_a]),
              snd (get_default_prompt ?now [template_a]))"
    by simp
  have r: "snd (get_default_prompt ?now [template_a])
             = [template_a] @ [fst (get_default_prompt ?now [template_a])]"
    "is_active (fst (get_default_prompt ?now [template_a]))"
    "pk (fst (get_default_prompt ?now [template_a])) = Some (fresh_pk [template_a])"
    using get_default_prompt_active [OF c] n by blast+
  have l: "length (snd (get_default_prompt ?now [template_a])) = 2"
    by (subst r(1)) simp
  have e: "is_active template_b"
    using get_default_prompt_active [OF a] by simp
  show ?thesis
    using a n l r(2) r(3) e by (simp add: f)
qed

end
